theory Spec2Isabelle
  imports Main "HOL-Library.Sublist"
begin

section \<open>The feed scraper (feed-bot/telegram-scraper.py)\<close>

text \<open>
  A shallow embedding of \<^verbatim>\<open>OptimizedTelegramScraper\<close>. Python strings are HOL strings,
  Python integers are \<^typ>\<open>int\<close>, \<^verbatim>\<open>None\<close> is \<^term>\<open>None\<close>. Every awaited call on an
  external service (Telegram, the translation endpoint) is a parameter of the model that
  says what the call returned or which exception it raised.
\<close>

subsection \<open>Exceptions\<close>

datatype exn =
    TransportError
  | FloodWaitError int
  | ApiError
  | IndexError
  | AttributeError
  | IntegrityError

subsection \<open>Strings\<close>

definition newline :: char where
  "newline = CHR 0x0A"

text \<open>The characters \<^verbatim>\<open>str.strip()\<close> removes, among the first 256 code points.\<close>

definition is_space :: "char \<Rightarrow> bool" where
  "is_space c = List.member
     [CHR 0x09, CHR 0x0A, CHR 0x0B, CHR 0x0C, CHR 0x0D, CHR 0x1C, CHR 0x1D, CHR 0x1E,
      CHR 0x1F, CHR 0x20, CHR 0x85, CHR 0xA0] c"

definition strip :: "string \<Rightarrow> string" where
  "strip s = rev (dropWhile is_space (rev (dropWhile is_space s)))"

subsection \<open>The translation client\<close>

text \<open>
  What \<^verbatim>\<open>await self.ai_client.chat.completions.create(...)\<close> does: it raises, or it
  returns a response whose \<^verbatim>\<open>choices\<close> each carry a \<^verbatim>\<open>message.content\<close> (a string or
  \<^verbatim>\<open>None\<close>).
\<close>

datatype ai_reply = Create_raises | Completion "string option list"

text \<open>The client is called with the model name, the system prompt and the user text.\<close>

type_synonym ai_client = "string \<Rightarrow> string \<Rightarrow> string \<Rightarrow> ai_reply"

definition system_prompt :: "string \<Rightarrow> string" where
  "system_prompt lang =
     ''Translate the following Telegram post to '' @ lang @
     ''. Keep emojis and formatting. Output ONLY the translation. If it is already in '' @
     lang @ '', return nothing.''"

definition translation_header :: string where
  "translation_header = [newline, newline] @ ''[Translation]:'' @ [newline]"

text \<open>
  The body of the \<^verbatim>\<open>try\<close> block of \<^verbatim>\<open>translate_text\<close>: \<^verbatim>\<open>response.choices[0]\<close> raises
  \<^verbatim>\<open>IndexError\<close> on an empty list, \<^verbatim>\<open>.content.strip()\<close> raises \<^verbatim>\<open>AttributeError\<close> on
  \<^verbatim>\<open>None\<close>.
\<close>

definition translate_try :: "ai_client \<Rightarrow> string \<Rightarrow> string \<Rightarrow> string \<Rightarrow> exn + string" where
  "translate_try client model lang text =
     (case client model (system_prompt lang) text of
        Create_raises \<Rightarrow> Inl ApiError
      | Completion choices \<Rightarrow>
          (case choices of
             [] \<Rightarrow> Inl IndexError
           | content # _ \<Rightarrow>
               (case content of
                  None \<Rightarrow> Inl AttributeError
                | Some c \<Rightarrow>
                    (let translation = strip c in
                     if translation \<noteq> [] then Inr (text @ translation_header @ translation)
                     else Inr text))))"

text \<open>\<^verbatim>\<open>lang = target_lang or self.target_lang\<close>: an empty string is falsy, like \<^verbatim>\<open>None\<close>.\<close>

definition effective_lang :: "string option \<Rightarrow> string \<Rightarrow> string" where
  "effective_lang target_lang self_lang =
     (case target_lang of
        None \<Rightarrow> self_lang
      | Some l \<Rightarrow> if l = [] then self_lang else l)"

text \<open>
  \<^verbatim>\<open>translate_text(self, text, target_lang)\<close>. The first argument is \<^verbatim>\<open>self.ai_client\<close>
  (\<^term>\<open>None\<close> when no client was configured), the next two are \<^verbatim>\<open>self.ai_model\<close> and
  \<^verbatim>\<open>self.target_lang\<close>. The result is \<^term>\<open>Inl e\<close> when the call raises \<open>e\<close>; the
  \<^verbatim>\<open>except Exception\<close> clause turns every exception of the \<^verbatim>\<open>try\<close> block into the
  original text.
\<close>

definition translate_text ::
  "ai_client option \<Rightarrow> string \<Rightarrow> string \<Rightarrow> string \<Rightarrow> string option \<Rightarrow> exn + string" where
  "translate_text ai ai_model self_lang text target_lang =
     (case ai of
        None \<Rightarrow> Inr text
      | Some client \<Rightarrow>
          if text = [] \<or> length text < 2 then Inr text
          else
            (let lang = effective_lang target_lang self_lang in
             case translate_try client ai_model lang text of
               Inr r \<Rightarrow> Inr r
             | Inl e \<Rightarrow> Inr text))"

subsection \<open>Telegram messages\<close>

text \<open>The classes of \<^verbatim>\<open>message.media\<close> the scraper tells apart; any other class by name.\<close>

datatype media =
    MessageMediaPhoto
  | MessageMediaDocument
  | MessageMediaWebPage
  | MessageMediaOther string

fun media_class_name :: "media \<Rightarrow> string" where
  "media_class_name MessageMediaPhoto = ''MessageMediaPhoto''"
| "media_class_name MessageMediaDocument = ''MessageMediaDocument''"
| "media_class_name MessageMediaWebPage = ''MessageMediaWebPage''"
| "media_class_name (MessageMediaOther n) = n"

text \<open>\<^verbatim>\<open>await message.get_sender()\<close> returns a \<^verbatim>\<open>User\<close>, something else, or \<^verbatim>\<open>None\<close>.\<close>

datatype sender =
    User "string option" "string option" "string option"
  | Not_a_user

text \<open>
  What one call of \<^verbatim>\<open>await message.download_media(file=...)\<close> does: it returns a path
  (or \<^verbatim>\<open>None\<close>), together with whether \<^verbatim>\<open>Path(path).exists()\<close> holds afterwards; it
  raises \<^verbatim>\<open>FloodWaitError\<close> with \<^verbatim>\<open>e.seconds\<close>; or it raises another exception.
\<close>

datatype fetch_result =
    Fetched "string option" bool
  | Flood_wait int
  | Fetch_error

record button =
  b_text :: "string option"
  b_url :: "string option"

text \<open>
  A Telethon message: its attributes, and for its two awaited methods what they do
  (\<open>m_download_media\<close> by attempt number, counted from 0).
\<close>

record tl_message =
  m_id :: int
  m_date :: string
  m_sender_id :: "int option"
  m_get_sender :: "exn + sender option"
  m_message :: "string option"
  m_media :: "media option"
  m_reply_to_msg_id :: "int option"
  m_post_author :: "string option"
  m_views :: "int option"
  m_forwards :: "int option"
  m_reactions :: "(string \<times> int) list option"
  m_reply_markup :: "button list list option"
  m_download_media :: "nat \<Rightarrow> fetch_result"

subsection \<open>The scraper object\<close>

record MessageData =
  message_id :: int
  date :: string
  sender_id :: "int option"
  first_name :: "string option"
  last_name :: "string option"
  username :: "string option"
  message :: string
  media_type :: "string option"
  media_path :: "string option"
  reply_to :: "int option"
  post_author :: "string option"
  views :: "int option"
  forwards :: "int option"
  reactions :: "string option"

text \<open>A row of the table \<^verbatim>\<open>messages\<close>: the columns of \<^verbatim>\<open>MessageData\<close> and the primary key.\<close>

record row = MessageData +
  rowid :: int

text \<open>\<^verbatim>\<open>self.state\<close>, the dictionary kept in \<^verbatim>\<open>state.json\<close>.\<close>

record state_dict =
  api_id :: "int option"
  api_hash :: "string option"
  channels :: "string \<rightharpoonup> int"
  channel_names :: "string \<rightharpoonup> string"
  scrape_media :: bool
  message_limit :: "int option"

text \<open>A request sent to the remote mirror.\<close>

datatype mirror_call =
    Save_messages string string "MessageData list"
  | Upload_media string int string

text \<open>
  The scraper and the files it owns: \<open>state_file\<close> is the content of \<^verbatim>\<open>state.json\<close>
  (\<^term>\<open>None\<close> when the file does not exist), \<open>db\<close> maps a channel to the rows of its
  table \<^verbatim>\<open>messages\<close> (\<^term>\<open>None\<close> when the database was never opened),
  \<open>media_files channel i\<close> is the result of globbing \<^verbatim>\<open>channels/<channel>/media/<i>-*\<close>,
  and \<open>supabase\<close> is the log of requests sent to the mirror when one is configured.
\<close>

record scraper =
  state :: state_dict
  state_file :: "string option"
  db :: "string \<rightharpoonup> row list"
  media_files :: "string \<Rightarrow> int \<Rightarrow> string list"
  ai_client :: "ai_client option"
  ai_model :: string
  target_lang :: string
  supabase :: "mirror_call list option"

definition max_concurrent_downloads :: nat where
  "max_concurrent_downloads = 5"

definition batch_size :: nat where
  "batch_size = 100"

definition state_save_interval :: nat where
  "state_save_interval = 50"

subsection \<open>Downloading one attachment\<close>

text \<open>What \<^verbatim>\<open>download_media\<close> does to the outside, in order.\<close>

datatype io_event = Fetch_attempt nat | Sleep int

text \<open>
  The loop \<^verbatim>\<open>for attempt in range(3)\<close> of \<^verbatim>\<open>download_media\<close>, from \<open>attempt\<close> on. It
  returns the value of the \<^verbatim>\<open>return\<close> reached and the events up to there.
\<close>

function download_attempts ::
  "(nat \<Rightarrow> fetch_result) \<Rightarrow> nat \<Rightarrow> string option \<times> io_event list" where
  "download_attempts fetch attempt =
     (if 3 \<le> attempt then (None, [])
      else
        (case fetch attempt of
           Fetched downloaded_path exists \<Rightarrow>
             (if downloaded_path \<noteq> None \<and> downloaded_path \<noteq> Some [] \<and> exists
              then (downloaded_path, [Fetch_attempt attempt])
              else (None, [Fetch_attempt attempt]))
         | Flood_wait seconds \<Rightarrow>
             (if attempt < 2
              then (case download_attempts fetch (attempt + 1) of
                      (r, evs) \<Rightarrow> (r, Fetch_attempt attempt # Sleep seconds # evs))
              else (None, [Fetch_attempt attempt]))
         | Fetch_error \<Rightarrow>
             (if attempt < 2
              then (case download_attempts fetch (attempt + 1) of
                      (r, evs) \<Rightarrow> (r, Fetch_attempt attempt # Sleep (2 ^ attempt) # evs))
              else (None, [Fetch_attempt attempt]))))"
  by pat_completeness auto
termination
  by (relation "measure (\<lambda>(fetch, attempt). 3 - attempt)") auto

declare download_attempts.simps [simp del]

text \<open>
  \<^verbatim>\<open>download_media(self, channel, message)\<close>: the returned path, the events, and the
  scraper with the downloaded file added to the media folder. The name of the target
  file, computed from \<^verbatim>\<open>message.file\<close>, is only handed to Telethon and is left out.
\<close>

definition download_media ::
  "string \<Rightarrow> tl_message \<Rightarrow> scraper \<Rightarrow> (string option \<times> io_event list) \<times> scraper" where
  "download_media channel msg sc =
     (if m_media msg = None \<or> \<not> scrape_media (state sc) then ((None, []), sc)
      else if m_media msg = Some MessageMediaWebPage then ((None, []), sc)
      else if m_media msg \<noteq> Some MessageMediaPhoto \<and> m_media msg \<noteq> Some MessageMediaDocument
      then ((None, []), sc)
      else
        (case media_files sc channel (m_id msg) of
           existing # _ \<Rightarrow> ((Some existing, []), sc)
         | [] \<Rightarrow>
             (case download_attempts (m_download_media msg) 0 of
                (None, evs) \<Rightarrow> ((None, evs), sc)
              | (Some path, evs) \<Rightarrow>
                  ((Some path, evs),
                   sc\<lparr>media_files :=
                        (media_files sc)(channel :=
                           (media_files sc channel)(m_id msg := [path]))\<rparr>))))"

text \<open>Observations on the events of a download.\<close>

definition raises :: "fetch_result \<Rightarrow> bool" where
  "raises r = (case r of Fetched _ _ \<Rightarrow> False | _ \<Rightarrow> True)"

fun is_fetch :: "io_event \<Rightarrow> bool" where
  "is_fetch (Fetch_attempt _) = True"
| "is_fetch (Sleep _) = False"

text \<open>
  The wait the specification asks for after failed attempt \<open>i\<close>: the duration the server
  supplied with a rate-limit signal, and \<open>2 ^ i\<close> otherwise. It follows the words of
  the specification and is compared with the events of \<^const>\<open>download_attempts\<close>.
\<close>

definition spec_backoff :: "(nat \<Rightarrow> fetch_result) \<Rightarrow> nat \<Rightarrow> int" where
  "spec_backoff f i = (case f i of Flood_wait seconds \<Rightarrow> seconds | _ \<Rightarrow> 2 ^ i)"

subsection \<open>Initial values\<close>

text \<open>The dictionary \<^verbatim>\<open>load_state\<close> returns when there is no readable \<^verbatim>\<open>state.json\<close>.\<close>

definition load_state_default :: state_dict where
  "load_state_default =
     \<lparr>api_id = None, api_hash = None, channels = Map.empty, channel_names = Map.empty,
      scrape_media = True, message_limit = None\<rparr>"

text \<open>
  The scraper \<^verbatim>\<open>__init__\<close> builds when there is no state file, no translation key and no
  mirror, before any database is opened.
\<close>

definition init_scraper :: scraper where
  "init_scraper =
     \<lparr>state = load_state_default, state_file = None, db = Map.empty,
      media_files = (\<lambda>_ _. []), ai_client = None, ai_model = [], target_lang = [],
      supabase = None\<rparr>"

text \<open>A message with a body and nothing else, whose sender is unknown.\<close>

definition text_message :: "int \<Rightarrow> string \<Rightarrow> tl_message" where
  "text_message i body =
     \<lparr>m_id = i, m_date = ''2024-01-01 00:00:00'', m_sender_id = None,
      m_get_sender = Inr None, m_message = Some body, m_media = None,
      m_reply_to_msg_id = None, m_post_author = None, m_views = None, m_forwards = None,
      m_reactions = None, m_reply_markup = None, m_download_media = (\<lambda>_. Fetch_error)\<rparr>"

text \<open>
  A photo whose first download is rate limited for 30 seconds, whose second download
  fails, and whose third download succeeds.
\<close>

definition flaky_photo :: tl_message where
  "flaky_photo =
     (text_message 7 ''photo'')
       \<lparr>m_media := Some MessageMediaPhoto,
        m_download_media :=
          (\<lambda>attempt. if attempt = 0 then Flood_wait 30
                      else if attempt = 1 then Fetch_error
                      else Fetched (Some ''channels/c/media/7-photo.jpg'') True)\<rparr>"

subsection \<open>The checkpoint file\<close>

text \<open>
  \<^verbatim>\<open>save_state\<close> opens \<^verbatim>\<open>state.json\<close> with mode \<^verbatim>\<open>"w"\<close>, which truncates the file, and
  \<^verbatim>\<open>json.dump\<close> then writes the encoding chunk by chunk. The encoder belongs to the
  Python library: the chunks it emits for a dictionary are a parameter.
\<close>

datatype file_op = Open_truncate | Write string

fun file_step :: "string option \<Rightarrow> file_op \<Rightarrow> string option" where
  "file_step content Open_truncate = Some []"
| "file_step content (Write chunk) = map_option (\<lambda>c. c @ chunk) content"

definition save_state_ops :: "string list \<Rightarrow> file_op list" where
  "save_state_ops chunks = Open_truncate # map Write chunks"


text \<open>\<^verbatim>\<open>save_state\<close> when every operation goes through.\<close>

definition save_state :: "(state_dict \<Rightarrow> string list) \<Rightarrow> scraper \<Rightarrow> scraper" where
  "save_state json_dump sc =
     sc\<lparr>state_file :=
          foldl file_step (state_file sc) (save_state_ops (json_dump (state sc)))\<rparr>"

subsection \<open>The message table\<close>

text \<open>
  The key SQLite gives a new row of a table with an \<^verbatim>\<open>INTEGER PRIMARY KEY\<close> column that
  the insert leaves out: one more than the largest key, 1 in an empty table.
\<close>

definition next_rowid :: "row list \<Rightarrow> int" where
  "next_rowid rows = (if rows = [] then 1 else Max (set (map rowid rows)) + 1)"

text \<open>
  \<^verbatim>\<open>INSERT INTO messages\<close>: the column \<^verbatim>\<open>message_id\<close> is \<^verbatim>\<open>UNIQUE\<close>, so a second row with
  the same value raises. \<^verbatim>\<open>INSERT OR IGNORE\<close> skips the row instead.
\<close>

definition sql_insert :: "MessageData \<Rightarrow> row list \<Rightarrow> exn + row list" where
  "sql_insert msg rows =
     (if message_id msg \<in> set (map message_id rows) then Inl IntegrityError
      else Inr (rows @ [MessageData.extend msg (row.fields (next_rowid rows))]))"

definition sql_insert_or_ignore :: "row list \<Rightarrow> MessageData \<Rightarrow> row list" where
  "sql_insert_or_ignore rows msg =
     (case sql_insert msg rows of Inl e \<Rightarrow> rows | Inr rows' \<Rightarrow> rows')"

definition executemany :: "row list \<Rightarrow> MessageData list \<Rightarrow> row list" where
  "executemany rows data = foldl sql_insert_or_ignore rows data"

text \<open>
  \<^verbatim>\<open>get_db_connection\<close> creates the table when it does not exist; the result is the
  table as it stands and the scraper.
\<close>

definition get_db_connection :: "string \<Rightarrow> scraper \<Rightarrow> row list \<times> scraper" where
  "get_db_connection channel sc =
     (case db sc channel of
        None \<Rightarrow> ([], sc\<lparr>db := (db sc)(channel \<mapsto> [])\<rparr>)
      | Some rows \<Rightarrow> (rows, sc))"

definition upload_batch_to_supabase ::
  "string \<Rightarrow> MessageData list \<Rightarrow> scraper \<Rightarrow> scraper" where
  "upload_batch_to_supabase channel messages sc =
     (case supabase sc of
        None \<Rightarrow> sc
      | Some calls \<Rightarrow>
          (let channel_name = (case channel_names (state sc) channel of
                                 None \<Rightarrow> ''Unknown''
                               | Some n \<Rightarrow> n) in
           if messages = [] then sc
           else sc\<lparr>supabase := Some (calls @ [Save_messages channel channel_name messages])\<rparr>))"

definition batch_insert_messages ::
  "string \<Rightarrow> MessageData list \<Rightarrow> scraper \<Rightarrow> scraper" where
  "batch_insert_messages channel messages sc =
     (if messages = [] then sc
      else
        (let sc1 = (if supabase sc \<noteq> None
                    then upload_batch_to_supabase channel messages sc
                    else sc) in
         case get_db_connection channel sc1 of
           (rows, sc2) \<Rightarrow> sc2\<lparr>db := (db sc2)(channel \<mapsto> executemany rows messages)\<rparr>))"

text \<open>The rows of a channel's table, none when the database does not exist.\<close>

definition table :: "scraper \<Rightarrow> string \<Rightarrow> row list" where
  "table sc channel = (case db sc channel of None \<Rightarrow> [] | Some rows \<Rightarrow> rows)"

subsection \<open>Normalising a message\<close>

text \<open>\<^verbatim>\<open>str(n)\<close> for an integer, and \<^verbatim>\<open>sep.join(parts)\<close>.\<close>

fun show_nat :: "nat \<Rightarrow> string" where
  "show_nat n =
     (if n < 10 then [char_of (48 + n)]
      else show_nat (n div 10) @ [char_of (48 + n mod 10)])"

declare show_nat.simps [simp del]

definition show_int :: "int \<Rightarrow> string" where
  "show_int i = (if i < 0 then CHR ''-'' # show_nat (nat (- i)) else show_nat (nat i))"

fun join :: "string \<Rightarrow> string list \<Rightarrow> string" where
  "join sep [] = []"
| "join sep [x] = x"
| "join sep (x # y # ys) = x @ sep @ join sep (y # ys)"

text \<open>
  The reactions column: \<^verbatim>\<open>message.reactions.results\<close> as pairs of emoticon (empty when
  the reaction has none) and count.
\<close>

definition format_reactions :: "(string \<times> int) list option \<Rightarrow> string option" where
  "format_reactions reacts =
     (case reacts of
        None \<Rightarrow> None
      | Some results \<Rightarrow>
          (let reactions_parts =
                 map (\<lambda>(emoji, count). emoji @ '' '' @ show_int count)
                     (filter (\<lambda>(emoji, count). emoji \<noteq> []) results) in
           if reactions_parts \<noteq> [] then Some (join '' '' reactions_parts) else None))"

text \<open>The link emoji of the header, as its UTF-8 bytes.\<close>

definition link_emoji :: string where
  "link_emoji = [CHR 0xF0, CHR 0x9F, CHR 0x94, CHR 0x97]"

definition extract_button_urls :: "button list list option \<Rightarrow> string" where
  "extract_button_urls reply_markup =
     (case reply_markup of
        None \<Rightarrow> []
      | Some rows \<Rightarrow>
          (let button_links =
                 map (\<lambda>b. (case b_text b of None \<Rightarrow> ''Link'' | Some t \<Rightarrow> t) @ '': '' @
                            (case b_url b of None \<Rightarrow> [] | Some u \<Rightarrow> u))
                     (filter (\<lambda>b. b_url b \<noteq> None \<and> b_url b \<noteq> Some []) (concat rows)) in
           if button_links \<noteq> []
           then [newline, newline] @ link_emoji @ '' Links:'' @ [newline] @
                join [newline] button_links
           else []))"

text \<open>
  The body of the \<^verbatim>\<open>try\<close> block of the message loops up to the construction of
  \<^verbatim>\<open>msg_data\<close>. A full rescrape (\<open>force\<close>) translates only when a target language is
  given; the incremental loop does not ask for one.
\<close>

definition build_message_data ::
  "scraper \<Rightarrow> bool \<Rightarrow> string option \<Rightarrow> tl_message \<Rightarrow> exn + MessageData" where
  "build_message_data sc force tlang msg =
     (case m_get_sender msg of
        Inl e \<Rightarrow> Inl e
      | Inr sender \<Rightarrow>
          (let reactions_str = format_reactions (m_reactions msg);
               message_text = (case m_message msg of None \<Rightarrow> [] | Some t \<Rightarrow> t) @
                              extract_button_urls (m_reply_markup msg);
               wanted = (if force then tlang \<noteq> None \<and> tlang \<noteq> Some [] else True) in
           case (if ai_client sc \<noteq> None \<and> message_text \<noteq> [] \<and> wanted
                 then translate_text (ai_client sc) (ai_model sc) (target_lang sc)
                        message_text tlang
                 else Inr message_text) of
             Inl e \<Rightarrow> Inl e
           | Inr message_text' \<Rightarrow>
               Inr \<lparr>message_id = m_id msg,
                    date = m_date msg,
                    sender_id = m_sender_id msg,
                    first_name = (case sender of Some (User f l u) \<Rightarrow> f | _ \<Rightarrow> None),
                    last_name = (case sender of Some (User f l u) \<Rightarrow> l | _ \<Rightarrow> None),
                    username = (case sender of Some (User f l u) \<Rightarrow> u | _ \<Rightarrow> None),
                    message = message_text',
                    media_type = map_option media_class_name (m_media msg),
                    media_path = None,
                    reply_to = m_reply_to_msg_id msg,
                    post_author = m_post_author msg,
                    views = m_views msg,
                    forwards = m_forwards msg,
                    reactions = reactions_str\<rparr>))"

subsection \<open>The message loops\<close>

record run =
  r_sc :: scraper
  message_batch :: "MessageData list"
  collected_messages :: "MessageData list"
  media_tasks :: "tl_message list"
  last_message_id :: int
  processed_messages :: nat

definition start_run :: "scraper \<Rightarrow> int \<Rightarrow> run" where
  "start_run sc offset_id =
     \<lparr>r_sc = sc, message_batch = [], collected_messages = [], media_tasks = [],
      last_message_id = offset_id, processed_messages = 0\<rparr>"

text \<open>The part both loops share: append the record, queue the download.\<close>

definition collect :: "tl_message \<Rightarrow> MessageData \<Rightarrow> run \<Rightarrow> run" where
  "collect msg msg_data r =
     (let r1 = r\<lparr>message_batch := message_batch r @ [msg_data],
                  collected_messages := collected_messages r @ [msg_data]\<rparr> in
      if scrape_media (state (r_sc r1)) \<and> m_media msg \<noteq> None \<and>
         m_media msg \<noteq> Some MessageMediaWebPage
      then r1\<lparr>media_tasks := media_tasks r1 @ [msg]\<rparr>
      else r1)"

definition flush_full_batch :: "string \<Rightarrow> run \<Rightarrow> run" where
  "flush_full_batch channel r =
     (if batch_size \<le> length (message_batch r)
      then r\<lparr>r_sc := batch_insert_messages channel (message_batch r) (r_sc r),
             message_batch := []\<rparr>
      else r)"

text \<open>\<^verbatim>\<open>self.state["channels"][channel] = last_message_id; self.save_state()\<close>\<close>

definition checkpoint :: "(state_dict \<Rightarrow> string list) \<Rightarrow> string \<Rightarrow> int \<Rightarrow> scraper \<Rightarrow> scraper" where
  "checkpoint json_dump channel last_id sc =
     save_state json_dump
       (sc\<lparr>state := (state sc)\<lparr>channels := (channels (state sc))(channel \<mapsto> last_id)\<rparr>\<rparr>)"

text \<open>One iteration of the incremental loop; an exception skips the message.\<close>

definition incremental_step ::
  "(state_dict \<Rightarrow> string list) \<Rightarrow> string \<Rightarrow> string option \<Rightarrow> run \<Rightarrow> tl_message \<Rightarrow> run" where
  "incremental_step json_dump channel tlang r msg =
     (case build_message_data (r_sc r) False tlang msg of
        Inl e \<Rightarrow> r
      | Inr msg_data \<Rightarrow>
          (let r1 = collect msg msg_data r;
               r2 = r1\<lparr>last_message_id := m_id msg,
                        processed_messages := processed_messages r1 + 1\<rparr>;
               r3 = flush_full_batch channel r2 in
           if processed_messages r3 mod state_save_interval = 0
           then r3\<lparr>r_sc := checkpoint json_dump channel (last_message_id r3) (r_sc r3)\<rparr>
           else r3))"

text \<open>One iteration of the loop of a full rescrape.\<close>

definition rescrape_step :: "string \<Rightarrow> string option \<Rightarrow> run \<Rightarrow> tl_message \<Rightarrow> run" where
  "rescrape_step channel tlang r msg =
     (case build_message_data (r_sc r) True tlang msg of
        Inl e \<Rightarrow> r
      | Inr msg_data \<Rightarrow>
          (let r1 = collect msg msg_data r;
               r2 = r1\<lparr>processed_messages := processed_messages r1 + 1\<rparr> in
           flush_full_batch channel r2))"

subsection \<open>Downloading the attachments of a run\<close>

definition update_media_path :: "string \<Rightarrow> int \<Rightarrow> string \<Rightarrow> scraper \<Rightarrow> scraper" where
  "update_media_path channel mid path sc =
     (case get_db_connection channel sc of
        (rows, sc1) \<Rightarrow>
          (let sc2 = sc1\<lparr>db := (db sc1)(channel \<mapsto>
                       map (\<lambda>r. if message_id r = mid then r\<lparr>media_path := Some path\<rparr> else r)
                           rows)\<rparr> in
           case supabase sc2 of
             None \<Rightarrow> sc2
           | Some calls \<Rightarrow> sc2\<lparr>supabase := Some (calls @ [Upload_media channel mid path])\<rparr>))"

text \<open>
  The download loop of \<^verbatim>\<open>scrape_channel\<close>. The tasks are created in batches of ten and
  awaited in order; each task touches the files of its own message only and the table is
  written when a task is awaited, so the loop is the tasks one after the other. One task:
  the dictionary \<^verbatim>\<open>downloaded_media_paths\<close> and the scraper after it.
\<close>

definition download_task ::
  "string \<Rightarrow> (int \<rightharpoonup> string) \<times> scraper \<Rightarrow> tl_message \<Rightarrow> (int \<rightharpoonup> string) \<times> scraper" where
  "download_task channel acc msg =
     (case acc of
        (paths, sc) \<Rightarrow>
          (case download_media channel msg sc of
             ((None, evs), sc1) \<Rightarrow> (paths, sc1)
           | ((Some path, evs), sc1) \<Rightarrow>
               if path \<noteq> [] then (paths(m_id msg \<mapsto> path), update_media_path channel (m_id msg) path sc1)
               else (paths, sc1)))"

definition download_all ::
  "string \<Rightarrow> tl_message list \<Rightarrow> scraper \<Rightarrow> (int \<rightharpoonup> string) \<times> scraper" where
  "download_all channel tasks sc = foldl (download_task channel) (Map.empty, sc) tasks"

definition attach_paths :: "(int \<rightharpoonup> string) \<Rightarrow> MessageData list \<Rightarrow> MessageData list" where
  "attach_paths paths collected =
     map (\<lambda>msg. case paths (message_id msg) of
                   None \<Rightarrow> msg
                 | Some p \<Rightarrow> msg\<lparr>media_path := Some p\<rparr>) collected"

subsection \<open>Telegram\<close>

text \<open>
  What Telegram answers during one call: whether \<^verbatim>\<open>get_entity\<close> resolves the channel,
  the messages of the channel (oldest first), the \<^verbatim>\<open>total\<close> of the counting request
  (\<^term>\<open>None\<close> when that request raises), after how many messages the iteration
  raises (\<^term>\<open>None\<close> when it runs to its end), and which request for messages by id
  raises, counted from 0 (\<^term>\<open>None\<close> when none does).
\<close>

record telegram =
  get_entity_ok :: bool
  history :: "tl_message list"
  total :: "nat option"
  iter_fails_after :: "nat option"
  ids_fail_at :: "nat option"

text \<open>\<^verbatim>\<open>iter_messages\<close> over the messages asked for: those yielded, and whether it raised.\<close>

definition iter_messages :: "telegram \<Rightarrow> tl_message list \<Rightarrow> tl_message list \<times> bool" where
  "iter_messages t wanted =
     (case iter_fails_after t of
        None \<Rightarrow> (wanted, False)
      | Some k \<Rightarrow> (take k wanted, True))"

text \<open>What \<^verbatim>\<open>scrape_channel\<close> returns: \<^verbatim>\<open>None\<close> or a list of records.\<close>

datatype outcome = Returned_none | Returned "MessageData list"

text \<open>
  What follows a message loop that ran to its end: the last flush, the downloads, and
  the paths written into the collected records.
\<close>

definition finish_run :: "string \<Rightarrow> run \<Rightarrow> MessageData list \<times> scraper" where
  "finish_run channel r =
     (let sc1 = batch_insert_messages channel (message_batch r) (r_sc r) in
      case download_all channel (media_tasks r) sc1 of
        (paths, sc2) \<Rightarrow> (attach_paths paths (collected_messages r), sc2))"

text \<open>The branch \<^verbatim>\<open>if force_rescrape and self.state.get("message_limit")\<close>.\<close>

definition rescrape_newest ::
  "telegram \<Rightarrow> string \<Rightarrow> int \<Rightarrow> string option \<Rightarrow> scraper \<Rightarrow> outcome \<times> scraper" where
  "rescrape_newest t channel limit tlang sc =
     (case iter_messages t (take (nat limit) (rev (history t))) of
        (msgs, raised) \<Rightarrow>
          (let r = foldl (rescrape_step channel tlang) (start_run sc 0) msgs in
           if raised then (Returned [], r_sc r)
           else (case finish_run channel r of
                   (collected, sc2) \<Rightarrow> (Returned collected, sc2))))"

text \<open>The incremental traversal from \<open>offset_id\<close>.\<close>

definition scrape_new ::
  "(state_dict \<Rightarrow> string list) \<Rightarrow> telegram \<Rightarrow> string \<Rightarrow> int \<Rightarrow> string option \<Rightarrow>
   scraper \<Rightarrow> outcome \<times> scraper" where
  "scrape_new json_dump t channel offset_id tlang sc =
     (case total t of
        None \<Rightarrow> (Returned [], sc)
      | Some total_messages \<Rightarrow>
          if total_messages = 0 then (Returned_none, sc)
          else
            (case iter_messages t (filter (\<lambda>m. offset_id < m_id m) (history t)) of
               (msgs, raised) \<Rightarrow>
                 (let r = foldl (incremental_step json_dump channel tlang)
                                (start_run sc offset_id) msgs in
                  if raised then (Returned [], r_sc r)
                  else (case finish_run channel r of
                          (collected, sc2) \<Rightarrow>
                            (Returned collected,
                             checkpoint json_dump channel (last_message_id r) sc2)))))"

text \<open>
  \<^verbatim>\<open>scrape_channel(self, channel, offset_id, force_rescrape, target_lang)\<close>: the value
  returned and the scraper afterwards. Every exception that reaches the outer handler
  makes the call return the empty list. The download of the channel photo, which catches
  its own exceptions and writes \<^verbatim>\<open>profile.jpg\<close> only, is left out.
\<close>

definition scrape_channel ::
  "(state_dict \<Rightarrow> string list) \<Rightarrow> telegram \<Rightarrow> string \<Rightarrow> int \<Rightarrow> bool \<Rightarrow> string option \<Rightarrow>
   scraper \<Rightarrow> outcome \<times> scraper" where
  "scrape_channel json_dump t channel offset_id force_rescrape tlang sc =
     (if \<not> get_entity_ok t then (Returned [], sc)
      else
        (case message_limit (state sc) of
           None \<Rightarrow> scrape_new json_dump t channel offset_id tlang sc
         | Some limit \<Rightarrow>
             if force_rescrape \<and> limit \<noteq> 0 then rescrape_newest t channel limit tlang sc
             else scrape_new json_dump t channel offset_id tlang sc))"

text \<open>A channel of \<open>n\<close> text posts with the ids 1 to \<open>n\<close>, oldest first.\<close>

definition plain_history :: "nat \<Rightarrow> tl_message list" where
  "plain_history n = map (\<lambda>i. text_message (int i) ''post'') [1..<Suc n]"

text \<open>A scraper that tracks one channel, with the given cursor.\<close>

definition tracked :: "string \<Rightarrow> int \<Rightarrow> scraper" where
  "tracked channel cursor =
     init_scraper\<lparr>state := load_state_default\<lparr>channels := [channel \<mapsto> cursor]\<rparr>\<rparr>"

text \<open>A stand-in for the JSON encoder in the examples: it emits two chunks.\<close>

definition stub_dump :: "state_dict \<Rightarrow> string list" where
  "stub_dump st = [''{'', ''}'']"

text \<open>Telegram serving fifty posts and then failing the iteration.\<close>

definition lossy :: telegram where
  "lossy =
     \<lparr>get_entity_ok = True, history = plain_history 50, total = Some 50,
      iter_fails_after = Some 50, ids_fail_at = None\<rparr>"

text \<open>Telegram serving a channel of three posts without failure.\<close>

definition idle :: telegram where
  "idle =
     \<lparr>get_entity_ok = True, history = plain_history 3, total = Some 3,
      iter_fails_after = None, ids_fail_at = None\<rparr>"

subsection \<open>The repair pass\<close>













subsection \<open>The download tasks and the semaphore\<close>

text \<open>
  The download loop creates the tasks of a batch of ten with \<^verbatim>\<open>asyncio.create_task\<close> and
  awaits them all before it creates the next batch. Each task runs
  \<^verbatim>\<open>async with semaphore: return await self.download_media(channel, message)\<close> on the
  semaphore created with \<^verbatim>\<open>self.max_concurrent_downloads\<close>. Tasks of one event loop
  interleave at their awaits only, so a run is a sequence of events: a batch is created,
  a waiting task passes the semaphore (which needs a free permit and takes it), a task
  inside the semaphore ends its download and gives the permit back.
\<close>

datatype phase = Pending | Waiting | In_flight | Finished

datatype sched_event = Spawn | Acquire nat | Release nat

record pool =
  permits :: nat
  phases :: "phase list"

definition download_batch_size :: nat where
  "download_batch_size = 10"

text \<open>The first \<open>n\<close> tasks not yet created become waiting tasks.\<close>

fun spawn :: "nat \<Rightarrow> phase list \<Rightarrow> phase list" where
  "spawn 0 phs = phs"
| "spawn (Suc n) [] = []"
| "spawn (Suc n) (Pending # phs) = Waiting # spawn n phs"
| "spawn (Suc n) (ph # phs) = ph # spawn (Suc n) phs"

text \<open>The number of tasks inside the semaphore, which are those with a fetch in flight.\<close>

definition in_flight :: "pool \<Rightarrow> nat" where
  "in_flight p = length (filter (\<lambda>ph. ph = In_flight) (phases p))"

text \<open>One event; \<^term>\<open>None\<close> when the event cannot happen in this state.\<close>

definition sched_step :: "pool \<Rightarrow> sched_event \<Rightarrow> pool option" where
  "sched_step p ev =
     (case ev of
        Spawn \<Rightarrow>
          if filter (\<lambda>ph. ph = Waiting \<or> ph = In_flight) (phases p) = []
          then Some (p\<lparr>phases := spawn download_batch_size (phases p)\<rparr>)
          else None
      | Acquire i \<Rightarrow>
          if i < length (phases p) \<and> phases p ! i = Waiting \<and> 0 < permits p
          then Some \<lparr>permits = permits p - 1, phases = (phases p)[i := In_flight]\<rparr>
          else None
      | Release i \<Rightarrow>
          if i < length (phases p) \<and> phases p ! i = In_flight
          then Some \<lparr>permits = permits p + 1, phases = (phases p)[i := Finished]\<rparr>
          else None)"

fun run_schedule :: "pool \<Rightarrow> sched_event list \<Rightarrow> pool option" where
  "run_schedule p [] = Some p"
| "run_schedule p (ev # evs) =
     (case sched_step p ev of None \<Rightarrow> None | Some p' \<Rightarrow> run_schedule p' evs)"

text \<open>The state before the first batch of a run with \<open>n\<close> download tasks.\<close>

definition init_pool :: "nat \<Rightarrow> pool" where
  "init_pool n = \<lparr>permits = max_concurrent_downloads, phases = replicate n Pending\<rparr>"

subsection \<open>Invariants\<close>






section \<open>Properties of one download\<close>

lemma download_attempts_2:
  "download_attempts f (Suc (Suc 0)) =
     (case f (Suc (Suc 0)) of
        Fetched p ex \<Rightarrow>
          (if p \<noteq> None \<and> p \<noteq> Some [] \<and> ex then p else None,
           [Fetch_attempt (Suc (Suc 0))])
      | _ \<Rightarrow> (None, [Fetch_attempt (Suc (Suc 0))]))"
  using download_attempts.simps [of f "Suc (Suc 0)"]
  by (simp split: fetch_result.splits)

lemma download_attempts_1:
  "download_attempts f (Suc 0) =
     (case f (Suc 0) of
        Fetched p ex \<Rightarrow>
          (if p \<noteq> None \<and> p \<noteq> Some [] \<and> ex then p else None, [Fetch_attempt (Suc 0)])
      | Flood_wait s \<Rightarrow>
          (fst (download_attempts f (Suc (Suc 0))),
           Fetch_attempt (Suc 0) # Sleep s # snd (download_attempts f (Suc (Suc 0))))
      | Fetch_error \<Rightarrow>
          (fst (download_attempts f (Suc (Suc 0))),
           Fetch_attempt (Suc 0) # Sleep 2 # snd (download_attempts f (Suc (Suc 0)))))"
  using download_attempts.simps [of f "Suc 0"]
  by (simp split: fetch_result.splits prod.splits)

lemma download_attempts_0:
  "download_attempts f 0 =
     (case f 0 of
        Fetched p ex \<Rightarrow>
          (if p \<noteq> None \<and> p \<noteq> Some [] \<and> ex then p else None, [Fetch_attempt 0])
      | Flood_wait s \<Rightarrow>
          (fst (download_attempts f (Suc 0)),
           Fetch_attempt 0 # Sleep s # snd (download_attempts f (Suc 0)))
      | Fetch_error \<Rightarrow>
          (fst (download_attempts f (Suc 0)),
           Fetch_attempt 0 # Sleep 1 # snd (download_attempts f (Suc 0))))"
  using download_attempts.simps [of f 0]
  by (simp split: fetch_result.splits prod.splits)

lemma fetch_count_le:
  "length (filter is_fetch (snd (download_attempts f a))) \<le> 3 - a"
proof (induction f a rule: download_attempts.induct)
  case (1 fetch attempt)
  show ?case
    using 1
    by (subst download_attempts.simps) (auto split: fetch_result.splits prod.splits)
qed

lemma attempts_first_returns:
  "\<not> raises (f 0) \<Longrightarrow> snd (download_attempts f 0) = [Fetch_attempt 0]"
  by (cases "f 0") (simp_all add: download_attempts_0 raises_def)

lemma attempts_second_returns:
  "raises (f 0) \<Longrightarrow> \<not> raises (f 1) \<Longrightarrow>
   snd (download_attempts f 0) = [Fetch_attempt 0, Sleep (spec_backoff f 0), Fetch_attempt 1]"
  by (cases "f 0"; cases "f (Suc 0)")
     (simp_all add: download_attempts_0 download_attempts_1 raises_def spec_backoff_def)

lemma attempts_third_made:
  "raises (f 0) \<Longrightarrow> raises (f 1) \<Longrightarrow>
   snd (download_attempts f 0) =
     [Fetch_attempt 0, Sleep (spec_backoff f 0), Fetch_attempt 1, Sleep (spec_backoff f 1),
      Fetch_attempt 2]"
  by (cases "f 0"; cases "f (Suc 0)"; cases "f (Suc (Suc 0))")
     (simp_all add: download_attempts_0 download_attempts_1 download_attempts_2 raises_def
        spec_backoff_def numeral_2_eq_2)

lemma attempts_all_fail:
  "raises (f 0) \<Longrightarrow> raises (f 1) \<Longrightarrow> raises (f 2) \<Longrightarrow> fst (download_attempts f 0) = None"
  by (cases "f 0"; cases "f (Suc 0)"; cases "f (Suc (Suc 0))")
     (simp_all add: download_attempts_0 download_attempts_1 download_attempts_2 raises_def
        numeral_2_eq_2)

lemma attempts_third_succeeds:
  "raises (f 0) \<Longrightarrow> raises (f 1) \<Longrightarrow> f 2 = Fetched (Some p) True \<Longrightarrow> p \<noteq> [] \<Longrightarrow>
   fst (download_attempts f 0) = Some p"
  by (cases "f 0"; cases "f (Suc 0)")
     (simp_all add: download_attempts_0 download_attempts_1 download_attempts_2 raises_def
        numeral_2_eq_2)

lemma download_media_fetches:
  assumes "m_media msg = Some MessageMediaPhoto \<or> m_media msg = Some MessageMediaDocument"
    and "scrape_media (state sc)"
    and "media_files sc channel (m_id msg) = []"
  shows "fst (download_media channel msg sc) = download_attempts (m_download_media msg) 0"
    and "fst (download_attempts (m_download_media msg) 0) = None \<Longrightarrow>
         snd (download_media channel msg sc) = sc"
  using assms by (auto simp add: download_media_def split: prod.splits option.splits)

text \<open>
  C5. A download that the checks before the loop do not settle (the message carries a photo
  or a document, media scraping is on, no file of the message exists yet) makes at most
  three fetch attempts. After a failed first or second attempt it sleeps the duration of
  the rate-limit signal, or \<open>2 ^ attempt\<close> after another exception, and tries again. When
  the third attempt fails too the result is \<^verbatim>\<open>None\<close> and nothing is recorded; when it
  returns an existing path the result is that path.
\<close>

theorem download_media_retries:
  assumes "m_media msg = Some MessageMediaPhoto \<or> m_media msg = Some MessageMediaDocument"
    and "scrape_media (state sc)"
    and "media_files sc channel (m_id msg) = []"
  shows
    "(let f = m_download_media msg;
          r = fst (fst (download_media channel msg sc));
          evs = snd (fst (download_media channel msg sc)) in
      length (filter is_fetch evs) \<le> 3 \<and>
      (\<not> raises (f 0) \<longrightarrow> evs = [Fetch_attempt 0]) \<and>
      (raises (f 0) \<and> \<not> raises (f 1) \<longrightarrow>
         evs = [Fetch_attempt 0, Sleep (spec_backoff f 0), Fetch_attempt 1]) \<and>
      (raises (f 0) \<and> raises (f 1) \<longrightarrow>
         evs = [Fetch_attempt 0, Sleep (spec_backoff f 0), Fetch_attempt 1,
                Sleep (spec_backoff f 1), Fetch_attempt 2]) \<and>
      (raises (f 0) \<and> raises (f 1) \<and> raises (f 2) \<longrightarrow>
         r = None \<and> snd (download_media channel msg sc) = sc) \<and>
      (\<forall>p. raises (f 0) \<and> raises (f 1) \<and> f 2 = Fetched (Some p) True \<and> p \<noteq> [] \<longrightarrow>
         r = Some p))"
proof -
  note dm = download_media_fetches [OF assms]
  have "length (filter is_fetch (snd (download_attempts (m_download_media msg) 0))) \<le> 3"
    using fetch_count_le [of "m_download_media msg" 0] by simp
  then show ?thesis
    unfolding Let_def dm(1)
    using attempts_first_returns [of "m_download_media msg"]
      attempts_second_returns [of "m_download_media msg"]
      attempts_third_made [of "m_download_media msg"]
      attempts_all_fail [of "m_download_media msg"]
      attempts_third_succeeds [of "m_download_media msg"]
      dm(2)
    by blast
qed


theorem download_media_retries_witness:
  "(m_media flaky_photo = Some MessageMediaPhoto \<or>
    m_media flaky_photo = Some MessageMediaDocument) \<and>
   scrape_media (state init_scraper) \<and>
   media_files init_scraper ''c'' (m_id flaky_photo) = [] \<and>
   fst (download_media ''c'' flaky_photo init_scraper) =
     (Some ''channels/c/media/7-photo.jpg'',
      [Fetch_attempt 0, Sleep 30, Fetch_attempt 1, Sleep 2, Fetch_attempt 2])"
proof -
  have h1: "m_media flaky_photo = Some MessageMediaPhoto \<or>
            m_media flaky_photo = Some MessageMediaDocument"
    by (simp add: flaky_photo_def)
  have h2: "scrape_media (state init_scraper)"
    by (simp add: init_scraper_def load_state_default_def)
  have h3: "media_files init_scraper ''c'' (m_id flaky_photo) = []"
    by (simp add: init_scraper_def)
  have f: "m_download_media flaky_photo 0 = Flood_wait 30"
    "m_download_media flaky_photo 1 = Fetch_error"
    "m_download_media flaky_photo 2 = Fetched (Some ''channels/c/media/7-photo.jpg'') True"
    by (simp_all add: flaky_photo_def)
  from download_media_retries [OF h1 h2 h3] f
  have "fst (fst (download_media ''c'' flaky_photo init_scraper)) =
          Some ''channels/c/media/7-photo.jpg''"
    and "snd (fst (download_media ''c'' flaky_photo init_scraper)) =
          [Fetch_attempt 0, Sleep 30, Fetch_attempt 1, Sleep 2, Fetch_attempt 2]"
    by (simp_all add: Let_def raises_def spec_backoff_def)
  then have "fst (download_media ''c'' flaky_photo init_scraper) =
     (Some ''channels/c/media/7-photo.jpg'',
      [Fetch_attempt 0, Sleep 30, Fetch_attempt 1, Sleep 2, Fetch_attempt 2])"
    by (simp add: prod_eq_iff)
  with h1 h2 h3 show ?thesis by blast
qed

section \<open>Properties of the translation step\<close>





section \<open>Properties of the message table\<close>








section \<open>Properties of the checkpoint file\<close>

lemma writes: "foldl file_step (Some c) (map Write chunks) = Some (c @ concat chunks)"
  by (induction chunks arbitrary: c) simp_all







section \<open>Properties of the incremental run\<close>

lemma state_batch_insert [simp]:
  "state (batch_insert_messages channel ms sc) = state sc"
  "state_file (batch_insert_messages channel ms sc) = state_file sc"
  by (simp_all add: batch_insert_messages_def get_db_connection_def upload_batch_to_supabase_def
        Let_def split: option.splits)

lemma r_sc_collect [simp]: "r_sc (collect msg d r) = r_sc r"
  by (simp add: collect_def Let_def)

lemma collect_counts [simp]:
  "length (message_batch (collect msg d r)) = Suc (length (message_batch r))"
  "processed_messages (collect msg d r) = processed_messages r"
  by (simp_all add: collect_def Let_def)

lemma step_quiet:
  assumes "processed_messages r < 49" and "length (message_batch r) < 99"
  shows "r_sc (incremental_step d c lg r m) = r_sc r"
    and "processed_messages (incremental_step d c lg r m) \<le> Suc (processed_messages r)"
    and "length (message_batch (incremental_step d c lg r m)) \<le> Suc (length (message_batch r))"
  using assms
  by (simp_all add: incremental_step_def flush_full_batch_def Let_def batch_size_def
        state_save_interval_def split: sum.splits)

lemma loop_quiet:
  "processed_messages r + length msgs < 50 \<Longrightarrow> length (message_batch r) + length msgs < 100 \<Longrightarrow>
   r_sc (foldl (incremental_step d c lg) r msgs) = r_sc r"
proof (induction msgs arbitrary: r)
  case Nil
  show ?case by simp
next
  case (Cons m msgs)
  from Cons.prems have small: "processed_messages r < 49" "length (message_batch r) < 99"
    by simp_all
  note st = step_quiet [OF small, of d c lg m]
  have "r_sc (foldl (incremental_step d c lg) (incremental_step d c lg r m) msgs) =
        r_sc (incremental_step d c lg r m)"
    using Cons.prems st(2,3) by (intro Cons.IH) simp_all
  with st(1) show ?case by simp
qed

lemma step_cursor:
  "channels (state (r_sc (incremental_step d c lg r m))) c = channels (state (r_sc r)) c \<or>
   channels (state (r_sc (incremental_step d c lg r m))) c = Some (m_id m)"
  by (simp add: incremental_step_def flush_full_batch_def Let_def checkpoint_def save_state_def
        collect_def split: sum.splits)

lemma loop_cursor:
  "channels (state (r_sc (foldl (incremental_step d c lg) r msgs))) c = channels (state (r_sc r)) c \<or>
   (\<exists>m \<in> set msgs. channels (state (r_sc (foldl (incremental_step d c lg) r msgs))) c = Some (m_id m))"
proof (induction msgs arbitrary: r)
  case Nil
  show ?case by simp
next
  case (Cons m msgs)
  from Cons.IH [of "incremental_step d c lg r m"] step_cursor [of d c lg r m]
  show ?case by auto
qed

lemma lossy_loop:
  "channels (state (r_sc (foldl (incremental_step d ''c'' None)
       (start_run (tracked ''c'' 0) 0) (plain_history 50)))) ''c'' = Some 50 \<and>
   db (r_sc (foldl (incremental_step d ''c'' None)
       (start_run (tracked ''c'' 0) 0) (plain_history 50))) ''c'' = None \<and>
   length (message_batch (foldl (incremental_step d ''c'' None)
       (start_run (tracked ''c'' 0) 0) (plain_history 50))) = 50"
  by code_simp

lemma plain_history_new: "filter (\<lambda>m. 0 < m_id m) (plain_history n) = plain_history n"
  by (simp add: plain_history_def text_message_def filter_map o_def)

lemma plain_history_length [simp]: "length (plain_history n) = n"
  by (simp add: plain_history_def)

lemma scrape_lossy:
  "scrape_channel d lossy ''c'' 0 False None (tracked ''c'' 0) =
     (Returned [], r_sc (foldl (incremental_step d ''c'' None)
                          (start_run (tracked ''c'' 0) 0) (plain_history 50)))"
  by (simp add: scrape_channel_def scrape_new_def iter_messages_def lossy_def
        plain_history_new Let_def tracked_def init_scraper_def load_state_default_def)

lemma state_checkpoint:
  "state_file (checkpoint d c i sc) = Some (concat (d (state (checkpoint d c i sc))))"
  by (simp add: checkpoint_def save_state_def save_state_ops_def writes)

lemma step_saved:
  "(state_file (r_sc (incremental_step d c lg r m)) = state_file (r_sc r) \<and>
    state (r_sc (incremental_step d c lg r m)) = state (r_sc r)) \<or>
   state_file (r_sc (incremental_step d c lg r m)) =
     Some (concat (d (state (r_sc (incremental_step d c lg r m)))))"
  by (simp add: incremental_step_def flush_full_batch_def Let_def state_checkpoint
        split: sum.splits)

lemma loop_saved:
  "(state_file (r_sc (foldl (incremental_step d c lg) r msgs)) = state_file (r_sc r) \<and>
    state (r_sc (foldl (incremental_step d c lg) r msgs)) = state (r_sc r)) \<or>
   state_file (r_sc (foldl (incremental_step d c lg) r msgs)) =
     Some (concat (d (state (r_sc (foldl (incremental_step d c lg) r msgs)))))"
proof (induction msgs arbitrary: r)
  case Nil
  show ?case by simp
next
  case (Cons m msgs)
  from Cons.IH [of "incremental_step d c lg r m"] step_saved [of d c lg r m]
  show ?case by auto
qed

text \<open>
  C1 fails on the code. After the fiftieth message of an incremental run from cursor 0 the
  cursor of the channel is 50 in \<^verbatim>\<open>self.state\<close> and in \<^verbatim>\<open>state.json\<close>, while the table of
  the channel holds no row: the fifty records are in \<^verbatim>\<open>message_batch\<close> only, because the
  batch is flushed every 100 records and the cursor is saved every 50.
\<close>

theorem cursor_saved_before_flush:
  "channels (state (r_sc (foldl (incremental_step d ''c'' None)
       (start_run (tracked ''c'' 0) 0) (plain_history 50)))) ''c'' = Some 50 \<and>
   state_file (r_sc (foldl (incremental_step d ''c'' None)
       (start_run (tracked ''c'' 0) 0) (plain_history 50))) =
     Some (concat (d (state (r_sc (foldl (incremental_step d ''c'' None)
       (start_run (tracked ''c'' 0) 0) (plain_history 50)))))) \<and>
   table (r_sc (foldl (incremental_step d ''c'' None)
       (start_run (tracked ''c'' 0) 0) (plain_history 50))) ''c'' = [] \<and>
   length (message_batch (foldl (incremental_step d ''c'' None)
       (start_run (tracked ''c'' 0) 0) (plain_history 50))) = 50"
proof -
  let ?r = "foldl (incremental_step d ''c'' None) (start_run (tracked ''c'' 0) 0)
              (plain_history 50)"
  note ev = lossy_loop [of d]
  have "channels (state (r_sc (start_run (tracked ''c'' 0) 0))) ''c'' = Some 0"
    by (simp add: start_run_def tracked_def)
  with ev have "state (r_sc ?r) \<noteq> state (r_sc (start_run (tracked ''c'' 0) 0))"
    by auto
  with loop_saved [of d "''c''" None "start_run (tracked ''c'' 0) 0" "plain_history 50"]
  have "state_file (r_sc ?r) = Some (concat (d (state (r_sc ?r))))"
    by blast
  with ev show ?thesis by (simp add: table_def)
qed

text \<open>
  C3, as stated, fails. When the iteration raises after fifty messages the call returns the
  empty list but the cursor of the channel has moved from 0 to 50; and a run that
  succeeds without finding a new message returns the empty list as well.
\<close>

theorem pagination_failure_counterexample:
  "fst (scrape_channel stub_dump lossy ''c'' 0 False None (tracked ''c'' 0)) = Returned [] \<and>
   channels (state (tracked ''c'' 0)) ''c'' = Some 0 \<and>
   channels (state (snd (scrape_channel stub_dump lossy ''c'' 0 False None (tracked ''c'' 0))))
     ''c'' = Some 50 \<and>
   fst (scrape_channel stub_dump idle ''c'' 3 False None (tracked ''c'' 3)) = Returned []"
proof -
  have "fst (scrape_channel stub_dump idle ''c'' 3 False None (tracked ''c'' 3)) = Returned []"
    by code_simp
  moreover have "channels (state (tracked ''c'' 0)) ''c'' = Some 0"
    by (simp add: tracked_def)
  ultimately show ?thesis
    using lossy_loop [of stub_dump] by (simp add: scrape_lossy)
qed

text \<open>
  C3, as the code has it. An incremental run whose transport fails returns the empty list.
  When the channel does not resolve or the counting request raises, the scraper is
  unchanged. When the iteration raises after \<open>k\<close> messages, the scraper is unchanged if
  \<open>k < 50\<close>; in every case the cursor of the channel is the one stored before the run or
  the id of a message after \<open>offset_id\<close> that the run checkpointed.
\<close>

theorem pagination_failure:
  "(\<not> get_entity_ok t \<longrightarrow> scrape_channel d t c off False lg sc = (Returned [], sc)) \<and>
   (get_entity_ok t \<and> total t = None \<longrightarrow>
      scrape_channel d t c off False lg sc = (Returned [], sc)) \<and>
   (\<forall>k n. get_entity_ok t \<and> total t = Some n \<and> n \<noteq> 0 \<and> iter_fails_after t = Some k \<longrightarrow>
      fst (scrape_channel d t c off False lg sc) = Returned [] \<and>
      (k < 50 \<longrightarrow> snd (scrape_channel d t c off False lg sc) = sc) \<and>
      (channels (state (snd (scrape_channel d t c off False lg sc))) c = channels (state sc) c \<or>
       (\<exists>m \<in> set (history t). off < m_id m \<and>
          channels (state (snd (scrape_channel d t c off False lg sc))) c = Some (m_id m))))"
proof -
  have new: "scrape_channel d t c off False lg sc =
      (if \<not> get_entity_ok t then (Returned [], sc) else scrape_new d t c off lg sc)"
    by (simp add: scrape_channel_def split: option.splits)
  have a: "\<not> get_entity_ok t \<longrightarrow> scrape_channel d t c off False lg sc = (Returned [], sc)"
    by (simp add: new)
  have b: "get_entity_ok t \<and> total t = None \<longrightarrow>
      scrape_channel d t c off False lg sc = (Returned [], sc)"
    by (simp add: new scrape_new_def)
  have c: "fst (scrape_channel d t c off False lg sc) = Returned [] \<and>
      (k < 50 \<longrightarrow> snd (scrape_channel d t c off False lg sc) = sc) \<and>
      (channels (state (snd (scrape_channel d t c off False lg sc))) c = channels (state sc) c \<or>
       (\<exists>m \<in> set (history t). off < m_id m \<and>
          channels (state (snd (scrape_channel d t c off False lg sc))) c = Some (m_id m)))"
    if h: "get_entity_ok t" "total t = Some n" "n \<noteq> 0" "iter_fails_after t = Some k" for k n
  proof -
    let ?msgs = "take k (filter (\<lambda>m. off < m_id m) (history t))"
    let ?r = "foldl (incremental_step d c lg) (start_run sc off) ?msgs"
    have run: "scrape_channel d t c off False lg sc = (Returned [], r_sc ?r)"
      using h by (simp add: new scrape_new_def iter_messages_def Let_def)
    have quiet: "k < 50 \<Longrightarrow> r_sc ?r = sc"
      using loop_quiet [of "start_run sc off" ?msgs d c lg] by (simp add: start_run_def)
    have "channels (state (r_sc ?r)) c = channels (state sc) c \<or>
          (\<exists>m \<in> set ?msgs. channels (state (r_sc ?r)) c = Some (m_id m))"
      using loop_cursor [of d c lg "start_run sc off" ?msgs] by (simp add: start_run_def)
    moreover have "set ?msgs \<subseteq> {m \<in> set (history t). off < m_id m}"
      using set_take_subset [of k "filter (\<lambda>m. off < m_id m) (history t)"] by auto
    ultimately have "channels (state (r_sc ?r)) c = channels (state sc) c \<or>
          (\<exists>m \<in> set (history t). off < m_id m \<and> channels (state (r_sc ?r)) c = Some (m_id m))"
      by blast
    with quiet show ?thesis by (simp add: run)
  qed
  from a b c show ?thesis by blast
qed

theorem pagination_failure_witness:
  "get_entity_ok (lossy\<lparr>iter_fails_after := Some 3\<rparr>) \<and>
   total (lossy\<lparr>iter_fails_after := Some 3\<rparr>) = Some 50 \<and>
   iter_fails_after (lossy\<lparr>iter_fails_after := Some 3\<rparr>) = Some 3 \<and>
   scrape_channel stub_dump (lossy\<lparr>iter_fails_after := Some 3\<rparr>) ''c'' 0 False None
       (tracked ''c'' 0) = (Returned [], tracked ''c'' 0)"
proof -
  have h: "get_entity_ok (lossy\<lparr>iter_fails_after := Some 3\<rparr>) \<and>
      total (lossy\<lparr>iter_fails_after := Some 3\<rparr>) = Some 50 \<and> (50::nat) \<noteq> 0 \<and>
      iter_fails_after (lossy\<lparr>iter_fails_after := Some 3\<rparr>) = Some 3"
    by (simp add: lossy_def)
  from pagination_failure
         [of "lossy\<lparr>iter_fails_after := Some 3\<rparr>" stub_dump "''c''" 0 None "tracked ''c'' 0"] h
  have "fst (scrape_channel stub_dump (lossy\<lparr>iter_fails_after := Some 3\<rparr>) ''c'' 0 False None
              (tracked ''c'' 0)) = Returned []"
    and "snd (scrape_channel stub_dump (lossy\<lparr>iter_fails_after := Some 3\<rparr>) ''c'' 0 False None
              (tracked ''c'' 0)) = tracked ''c'' 0"
    by auto
  then have "scrape_channel stub_dump (lossy\<lparr>iter_fails_after := Some 3\<rparr>) ''c'' 0 False None
       (tracked ''c'' 0) = (Returned [], tracked ''c'' 0)"
    by (simp add: prod_eq_iff)
  with h show ?thesis by simp
qed

section \<open>Properties of the full rescrape\<close>





lemma batch_insert_fields [simp]:
  "ai_client (batch_insert_messages c ms sc) = ai_client sc"
  "ai_model (batch_insert_messages c ms sc) = ai_model sc"
  "target_lang (batch_insert_messages c ms sc) = target_lang sc"
  by (simp_all add: batch_insert_messages_def get_db_connection_def upload_batch_to_supabase_def
        Let_def split: option.splits)

























section \<open>Properties of the repair pass\<close>




















section \<open>Properties of the download pool\<close>

lemma spawn_in_flight:
  "filter (\<lambda>ph. ph = In_flight) (spawn n phs) = filter (\<lambda>ph. ph = In_flight) phs"
  by (induction n phs rule: spawn.induct) simp_all

lemma enter_count:
  "i < length phs \<Longrightarrow> phs ! i \<noteq> In_flight \<Longrightarrow>
   length (filter (\<lambda>ph. ph = In_flight) (phs[i := In_flight])) =
   Suc (length (filter (\<lambda>ph. ph = In_flight) phs))"
proof (induction phs arbitrary: i)
  case Nil
  then show ?case by simp
next
  case (Cons ph phs)
  then show ?case by (cases i) simp_all
qed

lemma leave_count:
  "i < length phs \<Longrightarrow> phs ! i = In_flight \<Longrightarrow>
   Suc (length (filter (\<lambda>ph. ph = In_flight) (phs[i := Finished]))) =
   length (filter (\<lambda>ph. ph = In_flight) phs)"
proof (induction phs arbitrary: i)
  case Nil
  then show ?case by simp
next
  case (Cons ph phs)
  then show ?case by (cases i) simp_all
qed

lemma step_balance:
  assumes "sched_step p ev = Some p'"
  shows "in_flight p' + permits p' = in_flight p + permits p"
proof (cases ev)
  case Spawn
  with assms show ?thesis
    by (auto simp add: sched_step_def in_flight_def spawn_in_flight split: if_splits)
next
  case (Acquire i)
  with assms have en: "i < length (phases p)" "phases p ! i = Waiting" "0 < permits p"
    and p': "p' = \<lparr>permits = permits p - 1, phases = (phases p)[i := In_flight]\<rparr>"
    by (auto simp add: sched_step_def split: if_splits)
  from enter_count [OF en(1)] en(2,3) show ?thesis
    by (simp add: p' in_flight_def)
next
  case (Release i)
  with assms have en: "i < length (phases p)" "phases p ! i = In_flight"
    and p': "p' = \<lparr>permits = permits p + 1, phases = (phases p)[i := Finished]\<rparr>"
    by (auto simp add: sched_step_def split: if_splits)
  from leave_count [OF en] show ?thesis
    by (simp add: p' in_flight_def)
qed

lemma run_balance:
  "run_schedule p evs = Some p' \<Longrightarrow> in_flight p' + permits p' = in_flight p + permits p"
proof (induction evs arbitrary: p)
  case Nil
  then show ?case by simp
next
  case (Cons ev evs)
  then obtain p1 where s: "sched_step p ev = Some p1" and r: "run_schedule p1 evs = Some p'"
    by (auto split: option.splits)
  from Cons.IH [OF r] step_balance [OF s] show ?case by simp
qed

text \<open>
  C9. Whatever the number of download tasks and whatever the order of the events, at most
  five tasks are inside the semaphore at any time: the tasks inside and the free permits
  always add up to five.
\<close>

theorem downloads_bounded:
  "run_schedule (init_pool n) evs = Some p \<Longrightarrow>
   in_flight p \<le> 5 \<and> in_flight p + permits p = 5"
  using run_balance [of "init_pool n" evs p]
  by (simp add: init_pool_def in_flight_def max_concurrent_downloads_def)

theorem downloads_bounded_witness:
  "run_schedule (init_pool 12)
     [Spawn, Acquire 0, Acquire 1, Acquire 2, Acquire 3, Acquire 4, Release 2, Acquire 5] =
     Some \<lparr>permits = 0,
           phases = [In_flight, In_flight, Finished, In_flight, In_flight, In_flight, Waiting,
                     Waiting, Waiting, Waiting, Pending, Pending]\<rparr> \<and>
   in_flight \<lparr>permits = 0,
           phases = [In_flight, In_flight, Finished, In_flight, In_flight, In_flight, Waiting,
                     Waiting, Waiting, Waiting, Pending, Pending]\<rparr> \<le> 5 \<and>
   run_schedule (init_pool 12)
     [Spawn, Acquire 0, Acquire 1, Acquire 2, Acquire 3, Acquire 4, Acquire 5] = None"
proof -
  have a: "run_schedule (init_pool 12)
     [Spawn, Acquire 0, Acquire 1, Acquire 2, Acquire 3, Acquire 4, Release 2, Acquire 5] =
     Some \<lparr>permits = 0,
           phases = [In_flight, In_flight, Finished, In_flight, In_flight, In_flight, Waiting,
                     Waiting, Waiting, Waiting, Pending, Pending]\<rparr>"
    by code_simp
  have b: "run_schedule (init_pool 12)
     [Spawn, Acquire 0, Acquire 1, Acquire 2, Acquire 3, Acquire 4, Acquire 5] = None"
    by code_simp
  from downloads_bounded [OF a] a b show ?thesis by simp
qed

end
